theory Spec2Isabelle
  imports Main "HOL-Library.Char_ord" "HOL-Library.List_Lexorder"
begin

section \<open>The analyzer service of the IntelX client (gointelx/analyzer.go)\<close>

text \<open>
  Go strings are byte sequences; \<^typ>\<open>string\<close> is a list of 8-bit characters.
  With \<open>Char_ord\<close> and \<open>List_Lexorder\<close> the order \<open>(<)\<close> on \<^typ>\<open>string\<close> is the
  lexicographic order on the byte values, which is how Go compares strings and
  therefore how \<open>sort.Strings\<close> orders them.
\<close>

subsection \<open>Data\<close>

text \<open>
  \<open>AnalyzerConfig\<close> embeds \<open>BaseConfigurationType\<close>, declared in another file of the
  package; its type is the parameter \<open>'b\<close>. A slice is a list.
\<close>

record 'b AnalyzerConfig =
  BaseConfigurationType :: 'b
  Type :: string
  ExternalService :: bool
  LeaksInfo :: bool
  DockerBased :: bool
  RunHash :: bool
  RunHashType :: string
  SupportedFiletypes :: "string list"
  NotSupportedFiletypes :: "string list"
  ObservableSupported :: "string list"

text \<open>
  \<open>StatusResponse\<close> is declared in another file of the package; \<open>HealthCheck\<close> reads its
  field \<open>Status\<close>, a \<open>bool\<close>.
\<close>

record StatusResponse =
  Status :: bool

text \<open>
  The values of Go's \<open>error\<close> interface that reach the two methods, after the
  taxonomy of the error handling design. \<open>DecodeError m\<close> is the error value that
  \<open>json.Unmarshal\<close> returns, \<open>HTTPStatusError code msg\<close> carries the status code.
\<close>

datatype error =
    ConstructionError string
  | NetworkError string
  | HTTPStatusError nat string
  | DecodeError string
  | ContextCancelled

text \<open>A \<open>context.Context\<close>, as far as the transport looks at it.\<close>

record Context =
  cancelled :: bool

text \<open>The request envelope: method, content type, target URL, optional body.\<close>

record Request =
  Method :: string
  contentType :: string
  url :: string
  body :: "string option"

text \<open>The success envelope: the raw payload, read by the methods as \<open>successResp.Data\<close>.\<close>

record SuccessResponse =
  Data :: string

text \<open>
  \<open>IntelXClient\<close> is declared in another file. The methods of this file use
  \<open>client.options.Url\<close> and the two methods \<open>buildRequest\<close> and \<open>newRequest\<close>, which
  are fields here, so that every result about \<open>GetConfigs\<close> and \<open>HealthCheck\<close>
  holds for any transport.
\<close>

record IntelXClient =
  options_Url :: string
  buildRequest :: "Context \<Rightarrow> string \<Rightarrow> string \<Rightarrow> string option \<Rightarrow> string \<Rightarrow> error + Request"
  newRequest :: "Context \<Rightarrow> Request \<Rightarrow> error + SuccessResponse"

text \<open>
  What the file takes from outside the package and from \<open>constants\<close>:
  \<^item> the two route constants;
  \<^item> \<open>json.Unmarshal\<close> at the two target types, \<open>Inl m\<close> being the error it returns.
    A decoded Go map is a list of key-value pairs with distinct keys, in the order
    in which \<open>range\<close> will visit it, which Go leaves unspecified;
  \<^item> the zero value of \<open>BaseConfigurationType\<close>, for the zero \<open>AnalyzerConfig\<close> that
    indexing a map at an absent key returns;
  \<^item> what \<open>fmt.Sprintf\<close> prints from a directive outside the fragment modelled
    below, given the format from the verb position on and the operands left.
\<close>

record 'b Deps =
  ANALYZER_CONFIG_URL :: string
  ANALYZER_HEALTHCHECK_URL :: string
  unmarshal_configs :: "string \<Rightarrow> string + (string \<times> 'b AnalyzerConfig) list"
  unmarshal_status :: "string \<Rightarrow> string + StatusResponse"
  zero_base :: 'b
  fmt_other :: "string \<Rightarrow> string list \<Rightarrow> string"

definition zero_AnalyzerConfig :: "'b \<Rightarrow> 'b AnalyzerConfig" where
  "zero_AnalyzerConfig z =
     \<lparr>BaseConfigurationType = z, Type = [], ExternalService = False, LeaksInfo = False,
      DockerBased = False, RunHash = False, RunHashType = [], SupportedFiletypes = [],
      NotSupportedFiletypes = [], ObservableSupported = []\<rparr>"

subsection \<open>Map indexing and \<open>fmt.Sprintf\<close>\<close>

text \<open>\<open>m[k]\<close> on a Go map: the value stored at \<open>k\<close>, the zero value when there is none.\<close>

definition index_map :: "'b \<Rightarrow> (string \<times> 'b AnalyzerConfig) list \<Rightarrow> string \<Rightarrow> 'b AnalyzerConfig" where
  "index_map z m k = (case map_of m k of Some v \<Rightarrow> v | None \<Rightarrow> zero_AnalyzerConfig z)"

text \<open>
  \<open>fmt.Sprintf\<close> with string operands, on the directives \<open>%s\<close>, \<open>%v\<close> and \<open>%%\<close>:
  bytes other than \<open>%\<close> are copied; \<open>%%\<close> prints \<open>%\<close> and takes no operand; \<open>%s\<close> and
  \<open>%v\<close> print the next operand as it is, or \<open>%!s(MISSING)\<close> when none is left; a
  \<open>%\<close> at the end prints \<open>%!(NOVERB)\<close>; operands left over at the end are reported as
  \<open>%!(EXTRA string=...)\<close>. A letter that is no verb for a string (any but
  \<open>s v x X q T w\<close>) prints \<open>%!c(string=...)\<close> with the operand it takes, or
  \<open>%!c(MISSING)\<close>. Any other directive (flags, width, precision, argument index,
  the verbs \<open>x X q T w\<close>, a byte that is no letter) is left to the parameter \<open>other\<close>.
\<close>

definition ascii_letter :: "char \<Rightarrow> bool" where
  "ascii_letter v = (CHR ''a'' \<le> v \<and> v \<le> CHR ''z'' \<or> CHR ''A'' \<le> v \<and> v \<le> CHR ''Z'')"

definition bad_string_verb :: "char \<Rightarrow> bool" where
  "bad_string_verb v = (ascii_letter v \<and> v \<notin> set ''svxXqTw'')"

fun extra_operands :: "string list \<Rightarrow> string" where
  "extra_operands [] = []"
| "extra_operands [a] = ''string='' @ a"
| "extra_operands (a # b # as) = ''string='' @ a @ '', '' @ extra_operands (b # as)"

fun doPrintf :: "(string \<Rightarrow> string list \<Rightarrow> string) \<Rightarrow> string \<Rightarrow> string list \<Rightarrow> string" where
  "doPrintf other [] as = (if as = [] then [] else ''%!(EXTRA '' @ extra_operands as @ '')'')"
| "doPrintf other [c] as =
     (if c = CHR ''%'' then ''%!(NOVERB)'' @ doPrintf other [] as
      else c # doPrintf other [] as)"
| "doPrintf other (c # v # fs) as =
     (if c \<noteq> CHR ''%'' then c # doPrintf other (v # fs) as
      else if v = CHR ''%'' then CHR ''%'' # doPrintf other fs as
      else if v = CHR ''s'' \<or> v = CHR ''v'' then
        (case as of
           [] \<Rightarrow> ''%!'' @ [v] @ ''(MISSING)'' @ doPrintf other fs []
         | a # as' \<Rightarrow> a @ doPrintf other fs as')
      else if bad_string_verb v then
        (case as of
           [] \<Rightarrow> ''%!'' @ [v] @ ''(MISSING)'' @ doPrintf other fs []
         | a # as' \<Rightarrow> ''%!'' @ [v] @ ''(string='' @ a @ '')'' @ doPrintf other fs as')
      else other (v # fs) as)"

definition Sprintf :: "'b Deps \<Rightarrow> string \<Rightarrow> string list \<Rightarrow> string" where
  "Sprintf d format as = doPrintf (fmt_other d) format as"

subsection \<open>GetConfigs\<close>

text \<open>
  The methods return a pair, the second component being the \<open>error\<close>, \<open>None\<close> for
  \<open>nil\<close>. The first component of \<open>GetConfigs\<close> is the pointer to the slice, \<open>None\<close>
  for \<open>nil\<close>.
\<close>

definition GetConfigs_request :: "IntelXClient \<Rightarrow> 'b Deps \<Rightarrow> Context \<Rightarrow> error + Request" where
  "GetConfigs_request c d ctx =
     (let requestUrl = options_Url c @ ANALYZER_CONFIG_URL d;
          contentType = ''application/json''; method = ''GET''
      in buildRequest c ctx method contentType None requestUrl)"

text \<open>The first loop: the keys in the order of \<open>range\<close>; then \<open>sort.Strings\<close>.\<close>

definition analyzerNames :: "(string \<times> 'b AnalyzerConfig) list \<Rightarrow> string list" where
  "analyzerNames m = sort (map fst m)"

text \<open>The second loop: one lookup and one \<open>append\<close> for each sorted name.\<close>

definition analyzerConfigurationList ::
  "'b \<Rightarrow> (string \<times> 'b AnalyzerConfig) list \<Rightarrow> 'b AnalyzerConfig list" where
  "analyzerConfigurationList z m = map (index_map z m) (analyzerNames m)"

definition GetConfigs ::
  "IntelXClient \<Rightarrow> 'b Deps \<Rightarrow> Context \<Rightarrow> 'b AnalyzerConfig list option \<times> error option" where
  "GetConfigs c d ctx =
     (case GetConfigs_request c d ctx of
        Inl err \<Rightarrow> (None, Some err)
      | Inr request \<Rightarrow>
          (case newRequest c ctx request of
             Inl err \<Rightarrow> (None, Some err)
           | Inr successResp \<Rightarrow>
               (case unmarshal_configs d (Data successResp) of
                  Inl unmarshalError \<Rightarrow> (None, Some (DecodeError unmarshalError))
                | Inr analyzerConfigurationResponse \<Rightarrow>
                    (Some (analyzerConfigurationList (zero_base d) analyzerConfigurationResponse),
                     None))))"

subsection \<open>HealthCheck\<close>

definition HealthCheck_requestUrl :: "IntelXClient \<Rightarrow> 'b Deps \<Rightarrow> string \<Rightarrow> string" where
  "HealthCheck_requestUrl c d analyzerName =
     (let route = options_Url c @ ANALYZER_HEALTHCHECK_URL d
      in Sprintf d route [analyzerName])"

definition HealthCheck_request ::
  "IntelXClient \<Rightarrow> 'b Deps \<Rightarrow> Context \<Rightarrow> string \<Rightarrow> error + Request" where
  "HealthCheck_request c d ctx analyzerName =
     (let requestUrl = HealthCheck_requestUrl c d analyzerName;
          contentType = ''application/json''; method = ''GET''
      in buildRequest c ctx method contentType None requestUrl)"

definition HealthCheck ::
  "IntelXClient \<Rightarrow> 'b Deps \<Rightarrow> Context \<Rightarrow> string \<Rightarrow> bool \<times> error option" where
  "HealthCheck c d ctx analyzerName =
     (case HealthCheck_request c d ctx analyzerName of
        Inl err \<Rightarrow> (False, Some err)
      | Inr request \<Rightarrow>
          (case newRequest c ctx request of
             Inl err \<Rightarrow> (False, Some err)
           | Inr successResp \<Rightarrow>
               (case unmarshal_status d (Data successResp) of
                  Inl unmarshalError \<Rightarrow> (False, Some (DecodeError unmarshalError))
                | Inr status \<Rightarrow> (Status status, None))))"

subsection \<open>\<open>json.Unmarshal\<close> at the two target types\<close>

text \<open>
  \<open>json.Unmarshal\<close> first checks that the text is valid JSON and then stores the value
  in the target. The check, with the reading of the text, is a parameter \<open>parse\<close>
  (\<open>Inl\<close> the syntax error); a JSON value is a value of the following type.
\<close>

datatype json =
    JNull
  | JBool bool
  | JNumber string
  | JString string
  | JArray "json list"
  | JObject "(string \<times> json) list"

text \<open>The description of a JSON value that an \<open>UnmarshalTypeError\<close> carries.\<close>

fun json_kind :: "json \<Rightarrow> string" where
  "json_kind JNull = ''null''"
| "json_kind (JBool b) = ''bool''"
| "json_kind (JNumber n) = ''number''"
| "json_kind (JString s) = ''string''"
| "json_kind (JArray xs) = ''array''"
| "json_kind (JObject kvs) = ''object''"

text \<open>
  Storing the members of a JSON object in a \<open>StatusResponse\<close>, whose one field is
  \<open>Status\<close>. Which keys name that field (its tag, compared without regard to case) is
  the parameter \<open>is_key\<close>. A member with such a key stores a boolean, leaves the
  field as it is when it is \<open>null\<close>, and is a type error otherwise; the first type
  error is kept while decoding goes on, and is returned at the end. Members with
  other keys are skipped.
\<close>

fun decode_status_object ::
  "(string \<Rightarrow> bool) \<Rightarrow> (string \<times> json) list \<Rightarrow> StatusResponse \<Rightarrow> string option
     \<Rightarrow> string + StatusResponse" where
  "decode_status_object is_key [] status savedError =
     (case savedError of None \<Rightarrow> Inr status | Some e \<Rightarrow> Inl e)"
| "decode_status_object is_key ((k, x) # kvs) status savedError =
     (if is_key k then
        (case x of
           JBool b \<Rightarrow> decode_status_object is_key kvs (status\<lparr>Status := b\<rparr>) savedError
         | JNull \<Rightarrow> decode_status_object is_key kvs status savedError
         | _ \<Rightarrow> decode_status_object is_key kvs status
                 (case savedError of None \<Rightarrow> Some (json_kind x) | Some e \<Rightarrow> Some e))
      else decode_status_object is_key kvs status savedError)"







subsection \<open>The transport client\<close>

text \<open>
  Modelled from the spec: \<open>buildRequest\<close> of the transport client, whose code is in
  another file. It fails with a construction error if the URL is malformed or the
  context is already cancelled, and otherwise gives the request with the method,
  content type, body and URL it was called with. Which URLs are malformed is the
  parameter \<open>malformed\<close>.
\<close>

definition buildRequest_spec ::
  "(string \<Rightarrow> bool) \<Rightarrow> Context \<Rightarrow> string \<Rightarrow> string \<Rightarrow> string option \<Rightarrow> string \<Rightarrow> error + Request" where
  "buildRequest_spec malformed ctx m ct b u =
     (if malformed u \<or> cancelled ctx then Inl (ConstructionError u)
      else Inr \<lparr>Method = m, contentType = ct, url = u, body = b\<rparr>)"

text \<open>What the network does with a request.\<close>

datatype NetworkOutcome =
    TransportFailure string
  | Aborted
  | HTTPResponse nat string

text \<open>Modelled from the spec: the status codes that count as success, 200 to 299.\<close>

definition is_2xx :: "nat \<Rightarrow> bool" where
  "is_2xx code = (200 \<le> code \<and> code < 300)"

text \<open>
  Modelled from the spec: \<open>execute\<close> of the transport client (\<open>newRequest\<close> in the
  code), whose code is in another file. A transport failure is a network error, an
  aborted call is a cancellation error, a response whose status is not 2xx is an
  HTTP status error with the status code and the message decoded from the body
  (the parameter \<open>message\<close>), and a 2xx response is the success envelope with the
  body as its payload.
\<close>

definition newRequest_spec ::
  "(Request \<Rightarrow> NetworkOutcome) \<Rightarrow> (string \<Rightarrow> string) \<Rightarrow> Context \<Rightarrow> Request \<Rightarrow> error + SuccessResponse" where
  "newRequest_spec network message ctx request =
     (if cancelled ctx then Inl ContextCancelled
      else case network request of
             TransportFailure m \<Rightarrow> Inl (NetworkError m)
           | Aborted \<Rightarrow> Inl ContextCancelled
           | HTTPResponse code payload \<Rightarrow>
               (if is_2xx code then Inr \<lparr>Data = payload\<rparr>
                else Inl (HTTPStatusError code (message payload))))"

definition spec_client ::
  "string \<Rightarrow> (string \<Rightarrow> bool) \<Rightarrow> (Request \<Rightarrow> NetworkOutcome) \<Rightarrow> (string \<Rightarrow> string) \<Rightarrow> IntelXClient" where
  "spec_client base malformed network message =
     \<lparr>options_Url = base, buildRequest = buildRequest_spec malformed,
      newRequest = newRequest_spec network message\<rparr>"

subsection \<open>A concrete client, for evaluating the methods\<close>

definition example_config :: "string \<Rightarrow> unit AnalyzerConfig" where
  "example_config t = (zero_AnalyzerConfig ())\<lparr>Type := t\<rparr>"

definition example_map :: "(string \<times> unit AnalyzerConfig) list" where
  "example_map =
     [(''b'', example_config ''file''), (''B'', example_config ''observable''),
      (''ab'', example_config ''docker'')]"

text \<open>
  A stand-in for \<open>json.Unmarshal\<close>: the payload \<open>M\<close> decodes to the mapping \<open>m\<close>, the
  payload \<open>{}\<close> to the empty mapping, \<open>T\<close> and \<open>F\<close> to the two status records, and
  nothing else decodes.
\<close>

definition example_deps :: "(string \<times> unit AnalyzerConfig) list \<Rightarrow> unit Deps" where
  "example_deps m =
     \<lparr>ANALYZER_CONFIG_URL = ''/api/get_analyzer_configs'',
      ANALYZER_HEALTHCHECK_URL = ''/api/analyzer/%s/healthcheck'',
      unmarshal_configs =
        (\<lambda>s. if s = ''M'' then Inr m else if s = ''{}'' then Inr [] else Inl ''invalid character''),
      unmarshal_status =
        (\<lambda>s. if s = ''T'' then Inr \<lparr>Status = True\<rparr>
             else if s = ''F'' then Inr \<lparr>Status = False\<rparr>
             else Inl ''invalid character''),
      zero_base = (),
      fmt_other = (\<lambda>f as. [])\<rparr>"






text \<open>A network that answers every request with the same status code and payload.\<close>

definition example_client :: "string \<Rightarrow> nat \<Rightarrow> string \<Rightarrow> IntelXClient" where
  "example_client base code payload =
     spec_client base (\<lambda>u. False) (\<lambda>r. HTTPResponse code payload) (\<lambda>b. b)"

definition background :: Context where
  "background = \<lparr>cancelled = False\<rparr>"

section \<open>Properties\<close>

subsection \<open>The sorted names\<close>

lemma set_analyzerNames: "set (analyzerNames m) = fst ` set m"
  by (simp add: analyzerNames_def)

lemma length_analyzerNames: "length (analyzerNames m) = length m"
  by (simp add: analyzerNames_def)

lemma analyzerNames_strict: "distinct (map fst m) \<Longrightarrow> sorted_wrt (<) (analyzerNames m)"
  by (simp add: analyzerNames_def strict_sorted_iff)

lemma analyzerNames_eq:
  "distinct (map fst m) \<Longrightarrow> analyzerNames m = sorted_list_of_set (dom (map_of m))"
  by (simp add: analyzerNames_def dom_map_of_conv_image_fst sorted_list_of_set_sort_remdups
       distinct_remdups_id flip: set_map)

text \<open>The order of the names: lexicographic on the byte values, upper case first.\<close>

lemma less_string_bytewise:
  "(s < t) = ((s, t) \<in> lexord {(a, b). (of_char a :: nat) < of_char b})" for s t :: string
  by (simp add: list_less_def less_char_def)

lemma analyzerNames_example_map: "analyzerNames example_map = [''B'', ''ab'', ''b'']"
  by (simp add: analyzerNames_def example_map_def)

lemma index_map_in:
  "k \<in> fst ` set m \<Longrightarrow> map_of m k = Some (index_map z m k)"
  by (auto simp: index_map_def map_of_eq_None_iff split: option.splits)

lemma analyzerConfigurationList_lookup:
  "map Some (analyzerConfigurationList z m) = map (map_of m) (analyzerNames m)"
  unfolding analyzerConfigurationList_def
  by (simp add: set_analyzerNames index_map_in [symmetric])

lemma length_analyzerConfigurationList: "length (analyzerConfigurationList z m) = length m"
  by (simp add: analyzerConfigurationList_def length_analyzerNames)

subsection \<open>The concrete client\<close>

lemmas example_defs = example_client_def example_deps_def example_map_def example_config_def
  background_def spec_client_def buildRequest_spec_def newRequest_spec_def is_2xx_def
  zero_AnalyzerConfig_def

lemma example_GetConfigs_request:
  "GetConfigs_request (example_client ''https://example.org'' code payload) (example_deps m)
     background
   = Inr \<lparr>Method = ''GET'', contentType = ''application/json'',
          url = ''https://example.org/api/get_analyzer_configs'', body = None\<rparr>"
  by (simp add: GetConfigs_request_def example_defs)

lemma example_HealthCheck_request:
  "HealthCheck_request (example_client ''https://example.org'' code payload) (example_deps m)
     background ''x''
   = Inr \<lparr>Method = ''GET'', contentType = ''application/json'',
          url = ''https://example.org/api/analyzer/x/healthcheck'', body = None\<rparr>"
  by (simp add: HealthCheck_request_def HealthCheck_requestUrl_def Sprintf_def example_defs)

lemma example_newRequest_200:
  "newRequest (example_client base 200 payload) background request = Inr \<lparr>Data = payload\<rparr>"
  by (simp add: example_defs)

lemma example_map_distinct: "distinct (map fst example_map)"
  by (simp add: example_map_def)

subsection \<open>GetConfigs\<close>

text \<open>
  C1. When \<open>GetConfigs\<close> has decoded the payload to a mapping, it returns a sequence
  and no error; there is a list of names, strictly ascending in the byte-wise
  lexicographic order, that holds exactly the keys of the mapping; the sequence has as
  many elements as the mapping has entries; and its elements are the values of the
  mapping at these names, in this order.
\<close>

theorem GetConfigs_sorted_by_name:
  assumes "GetConfigs_request c d ctx = Inr request"
      and "newRequest c ctx request = Inr successResp"
      and "unmarshal_configs d (Data successResp) = Inr m"
      and "distinct (map fst m)"
  shows "\<exists>names out. GetConfigs c d ctx = (Some out, None)
           \<and> sorted_wrt (<) names \<and> set names = dom (map_of m)
           \<and> length out = length m \<and> length out = card (dom (map_of m))
           \<and> map Some out = map (map_of m) names"
proof (intro exI conjI)
  show "GetConfigs c d ctx = (Some (analyzerConfigurationList (zero_base d) m), None)"
    using assms(1-3) by (simp add: GetConfigs_def)
  show "sorted_wrt (<) (analyzerNames m)"
    using assms(4) by (rule analyzerNames_strict)
  show "set (analyzerNames m) = dom (map_of m)"
    by (simp add: set_analyzerNames dom_map_of_conv_image_fst)
  show "length (analyzerConfigurationList (zero_base d) m) = length m"
    by (rule length_analyzerConfigurationList)
  show "length (analyzerConfigurationList (zero_base d) m) = card (dom (map_of m))"
    using assms(4) distinct_card [of "map fst m"]
    by (simp add: length_analyzerConfigurationList dom_map_of_conv_image_fst)
  show "map Some (analyzerConfigurationList (zero_base d) m) = map (map_of m) (analyzerNames m)"
    by (rule analyzerConfigurationList_lookup)
qed

theorem GetConfigs_sorted_by_name_witness:
  "\<exists>names out.
     GetConfigs (example_client ''https://example.org'' 200 ''M'') (example_deps example_map)
       background = (Some out, None)
     \<and> sorted_wrt (<) names \<and> set names = dom (map_of example_map)
     \<and> length out = length example_map \<and> length out = card (dom (map_of example_map))
     \<and> map Some out = map (map_of example_map) names"
proof -
  have "unmarshal_configs (example_deps example_map) (Data \<lparr>Data = ''M''\<rparr>) = Inr example_map"
    by (simp add: example_deps_def)
  from GetConfigs_sorted_by_name [OF example_GetConfigs_request example_newRequest_200 this
      example_map_distinct]
  show ?thesis .
qed

text \<open>
  C4. When the payload decodes to the empty mapping, \<open>GetConfigs\<close> returns the empty
  sequence and no error.
\<close>

theorem GetConfigs_empty_mapping:
  assumes "GetConfigs_request c d ctx = Inr request"
      and "newRequest c ctx request = Inr successResp"
      and "unmarshal_configs d (Data successResp) = Inr []"
  shows "GetConfigs c d ctx = (Some [], None)"
  using assms by (simp add: GetConfigs_def analyzerConfigurationList_def analyzerNames_def)

theorem GetConfigs_empty_mapping_witness:
  "GetConfigs (example_client ''https://example.org'' 200 ''{}'') (example_deps example_map)
     background = (Some [], None)"
proof -
  have "unmarshal_configs (example_deps example_map) (Data \<lparr>Data = ''{}''\<rparr>) = Inr []"
    by (simp add: example_deps_def)
  from GetConfigs_empty_mapping [OF example_GetConfigs_request example_newRequest_200 this]
  show ?thesis .
qed

text \<open>
  C6. A run in which the decoder yields the same mapping with its keys in another
  iteration order returns the same result, element for element.
\<close>

theorem GetConfigs_deterministic:
  assumes "GetConfigs_request c d ctx = Inr request"
      and "newRequest c ctx request = Inr successResp"
      and "unmarshal_configs d (Data successResp) = Inr m"
      and "distinct (map fst m)" and "distinct (map fst m')"
      and "map_of m' = map_of m"
  shows "GetConfigs c (d\<lparr>unmarshal_configs := \<lambda>s. Inr m'\<rparr>) ctx = GetConfigs c d ctx"
proof -
  have names: "analyzerNames m' = analyzerNames m"
    using assms(4-6) by (simp add: analyzerNames_eq)
  have "index_map z m' = index_map z m" for z
    using assms(6) by (simp add: index_map_def fun_eq_iff)
  with names have "analyzerConfigurationList z m' = analyzerConfigurationList z m" for z
    by (simp add: analyzerConfigurationList_def)
  with assms(1-3) show ?thesis
    by (simp add: GetConfigs_def GetConfigs_request_def)
qed

theorem GetConfigs_deterministic_witness:
  "GetConfigs (example_client ''https://example.org'' 200 ''M'')
     ((example_deps example_map)\<lparr>unmarshal_configs := \<lambda>s. Inr (rev example_map)\<rparr>) background
   = GetConfigs (example_client ''https://example.org'' 200 ''M'') (example_deps example_map)
       background"
proof -
  have u: "unmarshal_configs (example_deps example_map) (Data \<lparr>Data = ''M''\<rparr>) = Inr example_map"
    by (simp add: example_deps_def)
  have d: "distinct (map fst (rev example_map))"
    by (simp add: example_map_def)
  have e: "map_of (rev example_map) = map_of example_map"
    by (auto simp: example_map_def fun_eq_iff)
  from GetConfigs_deterministic [OF example_GetConfigs_request example_newRequest_200 u
      example_map_distinct d e]
  show ?thesis .
qed

text \<open>
  C10. Whenever \<open>GetConfigs\<close> returns no error, the pointer it returns is not \<open>nil\<close>.
\<close>

theorem GetConfigs_result_or_error:
  "snd (GetConfigs c d ctx) = None \<Longrightarrow> fst (GetConfigs c d ctx) \<noteq> None"
  by (auto simp: GetConfigs_def split: sum.splits)

theorem GetConfigs_result_or_error_witness:
  "snd (GetConfigs (example_client ''https://example.org'' 200 ''{}'') (example_deps [])
          background) = None
   \<and> fst (GetConfigs (example_client ''https://example.org'' 200 ''{}'') (example_deps [])
          background) \<noteq> None"
proof -
  have h: "snd (GetConfigs (example_client ''https://example.org'' 200 ''{}'') (example_deps [])
          background) = None"
    by (simp add: GetConfigs_def example_GetConfigs_request example_newRequest_200)
      (simp add: example_deps_def)
  from h GetConfigs_result_or_error [OF h] show ?thesis by (rule conjI)
qed

subsection \<open>HealthCheck\<close>

text \<open>
  C2. When the payload of the response decodes to a status record, \<open>HealthCheck\<close>
  returns the boolean field of that record, unchanged, and no error.
\<close>

theorem HealthCheck_returns_status:
  assumes "HealthCheck_request c d ctx analyzerName = Inr request"
      and "newRequest c ctx request = Inr successResp"
      and "unmarshal_status d (Data successResp) = Inr status"
  shows "HealthCheck c d ctx analyzerName = (Status status, None)"
  using assms by (simp add: HealthCheck_def)

theorem HealthCheck_returns_status_witness:
  "HealthCheck (example_client ''https://example.org'' 200 ''T'') (example_deps []) background ''x''
     = (True, None)
   \<and> HealthCheck (example_client ''https://example.org'' 200 ''F'') (example_deps []) background ''x''
     = (False, None)"
proof -
  have t: "unmarshal_status (example_deps []) (Data \<lparr>Data = ''T''\<rparr>) = Inr \<lparr>Status = True\<rparr>"
    by (simp add: example_deps_def)
  have f: "unmarshal_status (example_deps []) (Data \<lparr>Data = ''F''\<rparr>) = Inr \<lparr>Status = False\<rparr>"
    by (simp add: example_deps_def)
  from HealthCheck_returns_status [OF example_HealthCheck_request example_newRequest_200 t]
    HealthCheck_returns_status [OF example_HealthCheck_request example_newRequest_200 f]
  show ?thesis by simp
qed

text \<open>
  C9. On each failure path of \<open>HealthCheck\<close> (the request cannot be built, the
  transport fails, the payload does not decode) the boolean returned is \<open>false\<close> and
  the error is the one that occurred; and the boolean is \<open>true\<close> only when no error is
  returned and the decoded status field is \<open>true\<close>.
\<close>

theorem HealthCheck_false_on_failure:
  "(HealthCheck_request c d ctx analyzerName = Inl err
      \<longrightarrow> HealthCheck c d ctx analyzerName = (False, Some err))
   \<and> (HealthCheck_request c d ctx analyzerName = Inr request \<and> newRequest c ctx request = Inl err
      \<longrightarrow> HealthCheck c d ctx analyzerName = (False, Some err))
   \<and> (HealthCheck_request c d ctx analyzerName = Inr request
        \<and> newRequest c ctx request = Inr successResp
        \<and> unmarshal_status d (Data successResp) = Inl unmarshalError
      \<longrightarrow> HealthCheck c d ctx analyzerName = (False, Some (DecodeError unmarshalError)))
   \<and> (snd (HealthCheck c d ctx analyzerName) \<noteq> None \<longrightarrow> \<not> fst (HealthCheck c d ctx analyzerName))
   \<and> (fst (HealthCheck c d ctx analyzerName)
      \<longrightarrow> snd (HealthCheck c d ctx analyzerName) = None
          \<and> (\<exists>r s st. HealthCheck_request c d ctx analyzerName = Inr r
                \<and> newRequest c ctx r = Inr s \<and> unmarshal_status d (Data s) = Inr st
                \<and> Status st))"
  by (auto simp: HealthCheck_def split: sum.splits)

theorem HealthCheck_false_on_failure_witness:
  "HealthCheck (example_client ''https://example.org'' 200 ''T'') (example_deps [])
     \<lparr>cancelled = True\<rparr> ''x''
     = (False, Some (ConstructionError ''https://example.org/api/analyzer/x/healthcheck''))
   \<and> HealthCheck (example_client ''https://example.org'' 503 ''down'') (example_deps [])
       background ''x'' = (False, Some (HTTPStatusError 503 ''down''))
   \<and> HealthCheck (example_client ''https://example.org'' 200 ''<html>'') (example_deps [])
       background ''x'' = (False, Some (DecodeError ''invalid character''))
   \<and> fst (HealthCheck (example_client ''https://example.org'' 200 ''T'') (example_deps [])
       background ''x'')
   \<and> snd (HealthCheck (example_client ''https://example.org'' 200 ''T'') (example_deps [])
       background ''x'') = None"
proof -
  let ?r = "\<lparr>Method = ''GET'', contentType = ''application/json'',
          url = ''https://example.org/api/analyzer/x/healthcheck'', body = None\<rparr>"
  have a: "HealthCheck_request (example_client ''https://example.org'' 200 ''T'') (example_deps [])
     \<lparr>cancelled = True\<rparr> ''x''
     = Inl (ConstructionError ''https://example.org/api/analyzer/x/healthcheck'')"
    by (simp add: HealthCheck_request_def HealthCheck_requestUrl_def Sprintf_def example_defs)
  have b: "newRequest (example_client ''https://example.org'' 503 ''down'') background ?r
     = Inl (HTTPStatusError 503 ''down'')"
    by (simp add: example_defs)
  have c: "unmarshal_status (example_deps []) (Data \<lparr>Data = ''<html>''\<rparr>) = Inl ''invalid character''"
    by (simp add: example_deps_def)
  have t: "fst (HealthCheck (example_client ''https://example.org'' 200 ''T'') (example_deps [])
       background ''x'')"
    by (simp add: HealthCheck_def example_HealthCheck_request example_newRequest_200)
      (simp add: example_deps_def)
  note w1 = HealthCheck_false_on_failure [of "example_client ''https://example.org'' 200 ''T''"
      "example_deps []" "\<lparr>cancelled = True\<rparr>" "''x''", THEN conjunct1, rule_format, OF a]
  note w2 = HealthCheck_false_on_failure [of "example_client ''https://example.org'' 503 ''down''"
      "example_deps []" background "''x''" _ ?r, THEN conjunct2, THEN conjunct1, rule_format,
      OF conjI, OF example_HealthCheck_request b]
  note w3 = HealthCheck_false_on_failure [of "example_client ''https://example.org'' 200 ''<html>''"
      "example_deps []" background "''x''" _ ?r "\<lparr>Data = ''<html>''\<rparr>",
      THEN conjunct2, THEN conjunct2, THEN conjunct1, rule_format,
      OF conjI, OF example_HealthCheck_request conjI, OF example_newRequest_200 c]
  note w5 = HealthCheck_false_on_failure [of "example_client ''https://example.org'' 200 ''T''"
      "example_deps []" background "''x''",
      THEN conjunct2, THEN conjunct2, THEN conjunct2, THEN conjunct2, rule_format, OF t,
      THEN conjunct1]
  from w1 w2 w3 t w5 show ?thesis by (intro conjI)
qed

subsection \<open>Decoding errors\<close>



lemma decode_status_object_accepts:
  assumes "\<forall>(k, x) \<in> set kvs. is_key k \<longrightarrow> x = JNull \<or> (\<exists>b. x = JBool b)"
  shows "\<exists>st. decode_status_object is_key kvs status None = Inr st"
  using assms
  by (induction kvs arbitrary: status) (auto split: json.splits)






subsection \<open>The two methods on the transport client of the design\<close>

text \<open>
  C3. With the transport client of the design, when the network answers the request
  of \<open>GetConfigs\<close> or of \<open>HealthCheck\<close> with a status code that is not 2xx, the method
  returns the HTTP status error with that status code, together with a \<open>nil\<close> pointer
  or with \<open>false\<close>, so never as a successful result. With any transport, the error
  that \<open>newRequest\<close> returns is the error the method returns.
\<close>

theorem non_2xx_is_HTTPStatusError:
  "(GetConfigs_request (spec_client base malformed network message) d ctx = Inr request
      \<and> network request = HTTPResponse code payload \<and> \<not> is_2xx code
    \<longrightarrow> GetConfigs (spec_client base malformed network message) d ctx
          = (None, Some (HTTPStatusError code (message payload))))
   \<and> (HealthCheck_request (spec_client base malformed network message) d ctx analyzerName
        = Inr request'
      \<and> network request' = HTTPResponse code' payload' \<and> \<not> is_2xx code'
    \<longrightarrow> HealthCheck (spec_client base malformed network message) d ctx analyzerName
          = (False, Some (HTTPStatusError code' (message payload'))))
   \<and> (GetConfigs_request c d ctx = Inr r \<and> newRequest c ctx r = Inl err
    \<longrightarrow> GetConfigs c d ctx = (None, Some err))
   \<and> (HealthCheck_request c d ctx analyzerName = Inr r' \<and> newRequest c ctx r' = Inl err'
    \<longrightarrow> HealthCheck c d ctx analyzerName = (False, Some err'))"
proof (intro conjI impI)
  assume a: "GetConfigs_request (spec_client base malformed network message) d ctx = Inr request
      \<and> network request = HTTPResponse code payload \<and> \<not> is_2xx code"
  then have "\<not> cancelled ctx"
    by (auto simp: GetConfigs_request_def spec_client_def buildRequest_spec_def Let_def
        split: if_splits)
  with a have "newRequest (spec_client base malformed network message) ctx request
      = Inl (HTTPStatusError code (message payload))"
    by (simp add: spec_client_def newRequest_spec_def)
  with a show "GetConfigs (spec_client base malformed network message) d ctx
          = (None, Some (HTTPStatusError code (message payload)))"
    by (simp add: GetConfigs_def)
next
  assume a: "HealthCheck_request (spec_client base malformed network message) d ctx analyzerName
        = Inr request'
      \<and> network request' = HTTPResponse code' payload' \<and> \<not> is_2xx code'"
  then have "\<not> cancelled ctx"
    by (auto simp: HealthCheck_request_def spec_client_def buildRequest_spec_def Let_def
        split: if_splits)
  with a have "newRequest (spec_client base malformed network message) ctx request'
      = Inl (HTTPStatusError code' (message payload'))"
    by (simp add: spec_client_def newRequest_spec_def)
  with a show "HealthCheck (spec_client base malformed network message) d ctx analyzerName
          = (False, Some (HTTPStatusError code' (message payload')))"
    by (simp add: HealthCheck_def)
next
  assume "GetConfigs_request c d ctx = Inr r \<and> newRequest c ctx r = Inl err"
  then show "GetConfigs c d ctx = (None, Some err)"
    by (simp add: GetConfigs_def)
next
  assume "HealthCheck_request c d ctx analyzerName = Inr r' \<and> newRequest c ctx r' = Inl err'"
  then show "HealthCheck c d ctx analyzerName = (False, Some err')"
    by (simp add: HealthCheck_def)
qed

theorem non_2xx_is_HTTPStatusError_witness:
  "GetConfigs (example_client ''https://example.org'' 404 ''Not found'') (example_deps example_map)
     background = (None, Some (HTTPStatusError 404 ''Not found''))
   \<and> HealthCheck (example_client ''https://example.org'' 404 ''Not found'')
       (example_deps example_map) background ''x''
     = (False, Some (HTTPStatusError 404 ''Not found''))"
proof -
  let ?c = "example_client ''https://example.org'' 404 ''Not found''"
  let ?g = "\<lparr>Method = ''GET'', contentType = ''application/json'',
          url = ''https://example.org/api/get_analyzer_configs'', body = None\<rparr>"
  let ?h = "\<lparr>Method = ''GET'', contentType = ''application/json'',
          url = ''https://example.org/api/analyzer/x/healthcheck'', body = None\<rparr>"
  have n: "\<not> is_2xx 404"
    by (simp add: is_2xx_def)
  have e: "newRequest ?c background r = Inl (HTTPStatusError 404 ''Not found'')" for r
    by (simp add: example_defs)
  note w = non_2xx_is_HTTPStatusError [of "''https://example.org''" "\<lambda>u. False"
      "\<lambda>r. HTTPResponse 404 ''Not found''" "\<lambda>b. b" "example_deps example_map" background
      ?g 404 "''Not found''" "''x''" ?h 404 "''Not found''" ?c ?g _ ?h,
      folded example_client_def]
  from w [THEN conjunct1, rule_format, OF conjI, OF example_GetConfigs_request conjI, OF refl n]
    w [THEN conjunct2, THEN conjunct1, rule_format, OF conjI, OF example_HealthCheck_request conjI,
      OF refl n]
    w [THEN conjunct2, THEN conjunct2, THEN conjunct1, rule_format, OF conjI,
      OF example_GetConfigs_request e]
    w [THEN conjunct2, THEN conjunct2, THEN conjunct2, rule_format, OF conjI,
      OF example_HealthCheck_request e]
  show ?thesis by simp
qed

text \<open>
  C8. Both methods call \<open>buildRequest\<close> with the method \<open>GET\<close>, the content type
  \<open>application/json\<close> and no body; with the transport client of the design, every
  request they build is a \<open>GET\<close> without body whose content type is
  \<open>application/json\<close>.
\<close>

theorem requests_are_GET_json:
  "(GetConfigs_request (spec_client base malformed network message) d ctx = Inr request
    \<longrightarrow> Method request = ''GET'' \<and> body request = None
        \<and> contentType request = ''application/json'')
   \<and> (HealthCheck_request (spec_client base malformed network message) d ctx analyzerName
        = Inr request'
    \<longrightarrow> Method request' = ''GET'' \<and> body request' = None
        \<and> contentType request' = ''application/json'')
   \<and> GetConfigs_request c d ctx
      = buildRequest c ctx ''GET'' ''application/json'' None (options_Url c @ ANALYZER_CONFIG_URL d)
   \<and> HealthCheck_request c d ctx analyzerName
      = buildRequest c ctx ''GET'' ''application/json'' None
          (HealthCheck_requestUrl c d analyzerName)"
  by (auto simp: GetConfigs_request_def HealthCheck_request_def spec_client_def
      buildRequest_spec_def Let_def split: if_splits)

theorem requests_are_GET_json_witness:
  "(\<exists>request. GetConfigs_request (example_client ''https://example.org'' 200 ''M'')
       (example_deps example_map) background = Inr request
     \<and> Method request = ''GET'' \<and> body request = None
     \<and> contentType request = ''application/json'')
   \<and> (\<exists>request. HealthCheck_request (example_client ''https://example.org'' 200 ''T'')
       (example_deps example_map) background ''x'' = Inr request
     \<and> Method request = ''GET'' \<and> body request = None
     \<and> contentType request = ''application/json'')"
proof -
  note g = requests_are_GET_json [of "''https://example.org''" "\<lambda>u. False"
      "\<lambda>r. HTTPResponse 200 ''M''" "\<lambda>b. b" "example_deps example_map" background,
      folded example_client_def, THEN conjunct1, rule_format, OF example_GetConfigs_request]
  note h = requests_are_GET_json [of "''https://example.org''" "\<lambda>u. False"
      "\<lambda>r. HTTPResponse 200 ''T''" "\<lambda>b. b" "example_deps example_map" background _ "''x''",
      folded example_client_def, THEN conjunct2, THEN conjunct1, rule_format,
      OF example_HealthCheck_request]
  from g h example_GetConfigs_request [of 200 "''M''" example_map]
    example_HealthCheck_request [of 200 "''T''" example_map]
  show ?thesis by blast
qed

subsection \<open>The URL of the health check\<close>

lemma doPrintf_plain_prefix:
  "CHR ''%'' \<notin> set p \<Longrightarrow> doPrintf other (p @ f) as = p @ doPrintf other f as"
proof (induction p)
  case Nil
  then show ?case by simp
next
  case (Cons c p)
  then show ?case by (cases "p @ f") auto
qed

lemma doPrintf_plain: "CHR ''%'' \<notin> set q \<Longrightarrow> doPrintf other q [] = q"
  using doPrintf_plain_prefix [of q other "[]" "[]"] by simp

text \<open>
  When the base URL holds no \<open>%\<close>, the URL of the request is the base URL followed by
  the formatted route; and a route with the one directive \<open>%s\<close> is formatted by
  putting the name, as it is, in its place.
\<close>

lemma HealthCheck_requestUrl_plain_base:
  "CHR ''%'' \<notin> set (options_Url c) \<Longrightarrow>
   HealthCheck_requestUrl c d analyzerName
     = options_Url c @ Sprintf d (ANALYZER_HEALTHCHECK_URL d) [analyzerName]"
  by (simp add: HealthCheck_requestUrl_def Sprintf_def doPrintf_plain_prefix)

lemma Sprintf_one_name:
  "CHR ''%'' \<notin> set p \<Longrightarrow> CHR ''%'' \<notin> set q \<Longrightarrow>
   Sprintf d (p @ ''%s'' @ q) [analyzerName] = p @ analyzerName @ q"
  by (simp add: Sprintf_def doPrintf_plain_prefix doPrintf_plain)

text \<open>
  C7. The URL of the request is to be the base URL followed by the route with the
  name in its place. \<open>HealthCheck\<close> formats the base URL together with the route:
  with a base URL that holds percent-encoded bytes, \<open>fmt.Sprintf\<close> rewrites the base
  URL, which takes the name, and the route is left without it. The second equation
  is the URL that formatting the route alone gives.
\<close>

theorem HealthCheck_requestUrl_formats_base:
  "HealthCheck_requestUrl (example_client ''https://example.org/caf%C3%A9'' 200 ''T'')
     (example_deps []) ''x''
     = ''https://example.org/caf%!C(string=x)3%!A(MISSING)9/api/analyzer/%!s(MISSING)/healthcheck''
   \<and> options_Url (example_client ''https://example.org/caf%C3%A9'' 200 ''T'')
       @ Sprintf (example_deps []) (ANALYZER_HEALTHCHECK_URL (example_deps [])) [''x'']
     = ''https://example.org/caf%C3%A9/api/analyzer/x/healthcheck''"
  by (simp add: HealthCheck_requestUrl_def Sprintf_def example_defs bad_string_verb_def
      ascii_letter_def)

end
